theory Spec2Isabelle
  imports Main
begin

section \<open>Python values used by the Extractor\<close>

text \<open>
  The exceptions that the modelled part of \<^verbatim>\<open>opal/views/core.py\<close> can raise. Every
  function of the model returns \<open>error + 'a\<close>, with \<open>Inl\<close> for a raised exception;
  no function of the Extractor catches anything except \<^verbatim>\<open>Synonym.DoesNotExist\<close>.
\<close>

datatype error =
    KeyError
  | AttributeError
  | ValueError
  | UnboundLocalError
  | FieldError
  | DoesNotExist
  | MultipleObjectsReturned
  | IOError
  | WriterError string

text \<open>Sequencing of two computations: the second runs only if the first did not raise.\<close>

definition and_then :: "error + 'a \<Rightarrow> ('a \<Rightarrow> error + 'b) \<Rightarrow> error + 'b" where
  "and_then r f = (case r of Inl e \<Rightarrow> Inl e | Inr v \<Rightarrow> f v)"

subsection \<open>Strings\<close>

text \<open>\<^verbatim>\<open>s.replace(a, b)\<close> for one-character \<open>a\<close> and \<open>b\<close>, and \<^verbatim>\<open>s.replace(a, '')\<close>.\<close>

definition str_replace :: "char \<Rightarrow> char \<Rightarrow> string \<Rightarrow> string" where
  "str_replace a b s = map (\<lambda>c. if c = a then b else c) s"

definition str_remove :: "char \<Rightarrow> string \<Rightarrow> string" where
  "str_remove a s = filter (\<lambda>c. c \<noteq> a) s"

text \<open>\<^verbatim>\<open>s.lower()\<close>, on the ASCII letters.\<close>

definition lower_char :: "char \<Rightarrow> char" where
  "lower_char c =
     (case map_of (zip ''ABCDEFGHIJKLMNOPQRSTUVWXYZ'' ''abcdefghijklmnopqrstuvwxyz'') c of
        None \<Rightarrow> c
      | Some l \<Rightarrow> l)"

definition lower :: "string \<Rightarrow> string" where
  "lower s = map lower_char s"

text \<open>\<^verbatim>\<open>s.split(sep)\<close> for a one-character separator.\<close>

fun split_on :: "char \<Rightarrow> string \<Rightarrow> string list" where
  "split_on sep [] = [[]]"
| "split_on sep (c # cs) =
     (if c = sep then [] # split_on sep cs
      else (case split_on sep cs of [] \<Rightarrow> [[c]] | p # ps \<Rightarrow> (c # p) # ps))"

text \<open>
  \<^verbatim>\<open>s.split('__')\<close>: the ORM's lookup separator. Occurrences are taken from the left
  and do not overlap, so \<^verbatim>\<open>'a___b'\<close> splits into \<^verbatim>\<open>['a', '_b']\<close>.
\<close>

fun split_sep :: "string \<Rightarrow> string list" where
  "split_sep [] = [[]]"
| "split_sep [c] = [[c]]"
| "split_sep (c # d # cs) =
     (if c = CHR ''_'' \<and> d = CHR ''_'' then [] # split_sep cs
      else (case split_sep (d # cs) of [] \<Rightarrow> [[c]] | p # ps \<Rightarrow> (c # p) # ps))"

text \<open>\<^verbatim>\<open>needle in haystack\<close> on strings.\<close>

fun str_contains :: "string \<Rightarrow> string \<Rightarrow> bool" where
  "str_contains needle [] = (needle = [])"
| "str_contains needle (c # cs) =
     (take (length needle) (c # cs) = needle \<or> str_contains needle cs)"

subsection \<open>Dates and \<^verbatim>\<open>strptime(s, "%d/%m/%Y")\<close>\<close>

datatype date = Date (year: nat) (month: nat) (day: nat)

definition date_le :: "date \<Rightarrow> date \<Rightarrow> bool" where
  "date_le a b =
     (year a < year b \<or>
      (year a = year b \<and> (month a < month b \<or> (month a = month b \<and> day a \<le> day b))))"

definition digit :: "char \<Rightarrow> nat option" where
  "digit c = map_of (zip ''0123456789'' [0, 1, 2, 3, 4, 5, 6, 7, 8, 9]) c"

text \<open>The value of a string of decimal digits; \<open>None\<close> if some character is not a digit.\<close>

fun number_from :: "nat \<Rightarrow> string \<Rightarrow> nat option" where
  "number_from acc [] = Some acc"
| "number_from acc (c # cs) =
     (case digit c of None \<Rightarrow> None | Some v \<Rightarrow> number_from (10 * acc + v) cs)"

definition is_leap :: "nat \<Rightarrow> bool" where
  "is_leap y = (y mod 4 = 0 \<and> (y mod 100 \<noteq> 0 \<or> y mod 400 = 0))"

definition days_in_month :: "nat \<Rightarrow> nat \<Rightarrow> nat" where
  "days_in_month y m =
     (if m = 2 then (if is_leap y then 29 else 28)
      else if m = 4 \<or> m = 6 \<or> m = 9 \<or> m = 11 then 30
      else 31)"

text \<open>
  The directive \<^verbatim>\<open>%d\<close> accepts \<^verbatim>\<open>3[0-1]|[1-2]\d|0[1-9]|[1-9]| [1-9]\<close>, the directive
  \<^verbatim>\<open>%m\<close> accepts \<^verbatim>\<open>1[0-2]|0[1-9]|[1-9]\<close> and \<^verbatim>\<open>%Y\<close> accepts exactly four digits.
\<close>

definition day_directive :: "string \<Rightarrow> nat option" where
  "day_directive s =
     (let t = (case s of [c, d] \<Rightarrow> (if c = CHR '' '' \<and> d \<noteq> CHR ''0'' then [d] else s) | _ \<Rightarrow> s)
      in if length t = 1 \<or> length t = 2 then
           (case number_from 0 t of
              None \<Rightarrow> None
            | Some n \<Rightarrow> if 1 \<le> n \<and> n \<le> 31 then Some n else None)
         else None)"

definition month_directive :: "string \<Rightarrow> nat option" where
  "month_directive s =
     (if length s = 1 \<or> length s = 2 then
        (case number_from 0 s of
           None \<Rightarrow> None
         | Some n \<Rightarrow> if 1 \<le> n \<and> n \<le> 12 then Some n else None)
      else None)"

definition year_directive :: "string \<Rightarrow> nat option" where
  "year_directive s = (if length s = 4 then number_from 0 s else None)"

text \<open>
  \<^verbatim>\<open>datetime.datetime.strptime(s, "%d/%m/%Y")\<close>: \<^verbatim>\<open>ValueError\<close> when the text does not
  match the format or names no day of the calendar. The time of day of the result is
  midnight and is left out.
\<close>

definition strptime :: "string \<Rightarrow> error + date" where
  "strptime s =
     (case split_on CHR ''/'' s of
        [ds, ms, ys] \<Rightarrow>
          (case (day_directive ds, month_directive ms, year_directive ys) of
             (Some d, Some m, Some y) \<Rightarrow>
               if 1 \<le> y \<and> d \<le> days_in_month y m then Inr (Date y m d) else Inl ValueError
           | _ \<Rightarrow> Inl ValueError)
      | _ \<Rightarrow> Inl ValueError)"

subsection \<open>Criteria\<close>

text \<open>
  A criterion is the dict decoded from the request: the keys \<^verbatim>\<open>column\<close>,
  \<^verbatim>\<open>field\<close>, \<^verbatim>\<open>queryType\<close>, \<^verbatim>\<open>query\<close> and \<^verbatim>\<open>combine\<close>, each with a string.
  \<^verbatim>\<open>q[k]\<close> raises \<^verbatim>\<open>KeyError\<close> on a missing key.
\<close>

type_synonym criterion = "string \<rightharpoonup> string"

definition getitem :: "criterion \<Rightarrow> string \<Rightarrow> error + string" where
  "getitem q k = (case q k of None \<Rightarrow> Inl KeyError | Some v \<Rightarrow> Inr v)"

definition criterion :: "string \<Rightarrow> string \<Rightarrow> string \<Rightarrow> string \<Rightarrow> string \<Rightarrow> criterion" where
  "criterion combine column field queryType query =
     [''combine'' \<mapsto> combine, ''column'' \<mapsto> column, ''field'' \<mapsto> field,
      ''queryType'' \<mapsto> queryType, ''query'' \<mapsto> query]"

section \<open>The record store\<close>

text \<open>
  Modelled from the spec: the record store (\<^verbatim>\<open>opal.models\<close> and the ORM behind it) is
  not under \<^verbatim>\<open>src/\<close>. The spec describes it as a collaborator with
  \<^verbatim>\<open>getByType(typeName)\<close> and \<^verbatim>\<open>query(typeName, fieldPath, comparisonOp, value)\<close>,
  scoped to Patient or Episode ownership, a Synonym lookup
  \<^verbatim>\<open>resolve(vocabularyId, aliasName)\<close>, and a Tagging relation between Episodes and
  named tags that keeps historical membership. Episodes and Patients are identified
  by their primary keys, which is how model instances compare and hash.
\<close>

datatype field_class = BooleanField | DateField | OtherField

text \<open>
  What the Extractor asks of a model class: its \<^verbatim>\<open>__name__\<close>, whether it is a subclass
  of \<^verbatim>\<open>EpisodeSubrecord\<close> or of \<^verbatim>\<open>PatientSubrecord\<close>, the names and classes of
  \<^verbatim>\<open>_meta.fields\<close>, and its \<^verbatim>\<open>ForeignKeyOrFreeText\<close> attributes with the name of
  their \<^verbatim>\<open>foreign_model\<close>.
\<close>

record model =
  m_app :: string
  m_name :: string
  episode_subrecord :: bool
  patient_subrecord :: bool
  meta_fields :: "(string \<times> field_class) list"
  fkorft_attrs :: "(string \<times> string) list"

datatype fvalue = BoolV bool | DateV date | StrV string

text \<open>
  A stored subrecord: the name of its model, the primary key of the Episode or
  Patient that owns it, and its values by field path (the path of the name of a
  hybrid field's reference is \<^verbatim>\<open>[f_fk, name]\<close>, of its free text \<^verbatim>\<open>[f_ft]\<close>).
\<close>

record row =
  r_model :: string
  r_owner :: nat
  r_values :: "(string list \<times> fvalue) list"

record store =
  get_models :: "model list"
  episodes :: "(nat \<times> nat) list"
  rows :: "row list"
  synonyms :: "(string \<times> string \<times> string) list"
  taggings :: "(nat \<times> string \<times> bool) list"

text \<open>
  Modelled from the spec: \<^verbatim>\<open>models.Tagging\<close>, the relation between Episodes and named
  teams. The spec gives it no boolean, date or hybrid field.
\<close>

definition Tagging :: model where
  "Tagging =
     \<lparr>m_app = ''opal'', m_name = ''Tagging'', episode_subrecord = False,
      patient_subrecord = False,
      meta_fields = [(''episode'', OtherField), (''team'', OtherField)],
      fkorft_attrs = []\<rparr>"

text \<open>
  Modelled from the spec: \<^verbatim>\<open>Episode.objects.ever_tagged(name)\<close>, the Episodes that
  have ever carried the named tag; the flag of a tagging says whether it is still
  active and is not consulted.
\<close>

definition ever_tagged :: "store \<Rightarrow> string \<Rightarrow> nat list" where
  "ever_tagged st name = map fst (filter (\<lambda>(e, t, active). t = name) (taggings st))"

text \<open>Modelled from the spec: \<^verbatim>\<open>patient.episode_set.all()\<close>.\<close>

definition episode_set :: "store \<Rightarrow> nat \<Rightarrow> nat list" where
  "episode_set st p = map fst (filter (\<lambda>(e, owner). owner = p) (episodes st))"

text \<open>
  Modelled from the spec: \<^verbatim>\<open>Synonym.objects.get(content_type=ct, name=name)\<close> followed
  by \<^verbatim>\<open>.content_object.name\<close>.
\<close>

definition Synonym_get :: "store \<Rightarrow> string \<Rightarrow> string \<Rightarrow> error + string" where
  "Synonym_get st ct name =
     (case filter (\<lambda>(c, alias, canonical). c = ct \<and> alias = name) (synonyms st) of
        [] \<Rightarrow> Inl DoesNotExist
      | [(c, alias, canonical)] \<Rightarrow> Inr canonical
      | _ \<Rightarrow> Inl MultipleObjectsReturned)"

text \<open>
  Modelled from the spec: the comparison operators of the store's \<^verbatim>\<open>query\<close>. The
  first argument is the lookup type, the second the value asked for, the third the
  stored value.
\<close>

definition query_terms :: "string list" where
  "query_terms =
     [''exact'', ''iexact'', ''contains'', ''icontains'', ''gt'', ''gte'', ''lt'', ''lte'']"

definition lookup_holds :: "string \<Rightarrow> fvalue \<Rightarrow> fvalue \<Rightarrow> bool" where
  "lookup_holds lookup val x =
     (if lookup = ''exact'' then x = val
      else if lookup = ''iexact'' then
        (case (x, val) of (StrV a, StrV b) \<Rightarrow> lower a = lower b | _ \<Rightarrow> False)
      else if lookup = ''contains'' then
        (case (x, val) of (StrV a, StrV b) \<Rightarrow> str_contains b a | _ \<Rightarrow> False)
      else if lookup = ''icontains'' then
        (case (x, val) of (StrV a, StrV b) \<Rightarrow> str_contains (lower b) (lower a) | _ \<Rightarrow> False)
      else if lookup = ''lte'' then
        (case (x, val) of (DateV a, DateV b) \<Rightarrow> date_le a b | _ \<Rightarrow> False)
      else if lookup = ''gte'' then
        (case (x, val) of (DateV a, DateV b) \<Rightarrow> date_le b a | _ \<Rightarrow> False)
      else if lookup = ''lt'' then
        (case (x, val) of (DateV a, DateV b) \<Rightarrow> \<not> date_le b a | _ \<Rightarrow> False)
      else if lookup = ''gt'' then
        (case (x, val) of (DateV a, DateV b) \<Rightarrow> \<not> date_le a b | _ \<Rightarrow> False)
      else False)"

text \<open>
  Modelled from the spec: the relation \<open>rel\<close> of Episode (or of Patient) is the
  registered subrecord model of that scope whose lower-cased name is \<open>rel\<close>.
\<close>

definition related :: "store \<Rightarrow> (model \<Rightarrow> bool) \<Rightarrow> string \<Rightarrow> model option" where
  "related st scope rel = find (\<lambda>m. scope m \<and> lower (m_name m) = rel) (get_models st)"

text \<open>
  Modelled from the spec: the owners of the rows of relation \<open>rel\<close> whose value at
  \<open>path\<close> satisfies \<open>P\<close>, one entry per matching row (a join, so an owner can occur
  more than once). \<^verbatim>\<open>FieldError\<close> when the relation or the field does not resolve.
\<close>

definition select_rows ::
  "store \<Rightarrow> (model \<Rightarrow> bool) \<Rightarrow> string \<Rightarrow> string list \<Rightarrow> (fvalue \<Rightarrow> bool) \<Rightarrow> error + nat list" where
  "select_rows st scope rel path P =
     (case related st scope rel of
        None \<Rightarrow> Inl FieldError
      | Some m \<Rightarrow>
          if path \<noteq> [] \<and> hd path \<in> fst ` set (meta_fields m) then
            Inr (map r_owner
                  (filter (\<lambda>r. r_model r = m_name m \<and>
                               (case map_of (r_values r) path of None \<Rightarrow> False | Some x \<Rightarrow> P x))
                          (rows st)))
          else Inl FieldError)"

text \<open>
  Modelled from the spec: \<^verbatim>\<open>Model.objects.filter(**{key: val})\<close>. The key is split at
  \<^verbatim>\<open>__\<close>; a last part that is a lookup type is the comparison, \<^verbatim>\<open>exact\<close> otherwise;
  the first part is the relation and the rest the field path.
\<close>

definition orm_filter :: "store \<Rightarrow> (model \<Rightarrow> bool) \<Rightarrow> string \<Rightarrow> fvalue \<Rightarrow> error + nat list" where
  "orm_filter st scope key val =
     (let parts = split_sep key;
          has_lookup = (1 < length parts \<and> last parts \<in> set query_terms);
          lookup = (if has_lookup then last parts else ''exact'');
          names = (if has_lookup then butlast parts else parts)
      in case names of
           [] \<Rightarrow> Inl FieldError
         | rel # path \<Rightarrow> select_rows st scope rel path (lookup_holds lookup val))"

definition Episode_filter :: "store \<Rightarrow> string \<Rightarrow> fvalue \<Rightarrow> error + nat list" where
  "Episode_filter st key val = orm_filter st episode_subrecord key val"

definition Patient_filter :: "store \<Rightarrow> string \<Rightarrow> fvalue \<Rightarrow> error + nat list" where
  "Patient_filter st key val = orm_filter st patient_subrecord key val"

section \<open>The Extractor\<close>

text \<open>
  A Python \<^verbatim>\<open>set\<close> is kept as a list without repetitions; the order in which Python
  iterates over a set is not specified, and no statement below depends on it.
\<close>

definition py_set :: "nat list \<Rightarrow> nat list" where
  "py_set xs = remdups xs"

text \<open>
  \<^verbatim>\<open>Extractor._episodes_for_boolean_fields\<close> (the model drops the leading underscore
  of the three private methods).
\<close>

definition episodes_for_boolean_fields ::
  "store \<Rightarrow> criterion \<Rightarrow> string \<Rightarrow> string \<Rightarrow> error + nat list" where
  "episodes_for_boolean_fields st query field contains =
     and_then (getitem query ''column'') (\<lambda>column.
       let model = lower (str_replace CHR '' '' CHR ''_'' column) in
       and_then (getitem query ''query'') (\<lambda>q.
         let val = (q = ''true'');
             kw = str_remove CHR ''_'' model @ ''__'' @ field
         in Episode_filter st kw (BoolV val)))"

text \<open>\<^verbatim>\<open>Extractor._episodes_for_date_fields\<close>.\<close>

definition episodes_for_date_fields ::
  "store \<Rightarrow> criterion \<Rightarrow> string \<Rightarrow> string \<Rightarrow> error + nat list" where
  "episodes_for_date_fields st query field contains =
     and_then (getitem query ''column'') (\<lambda>column.
       let model = lower (str_remove CHR '' '' column) in
       and_then (getitem query ''query'') (\<lambda>q.
         and_then (strptime q) (\<lambda>val.
           and_then (getitem query ''queryType'') (\<lambda>queryType.
             let qtype = (if queryType = ''Before'' then ''__lte''
                          else if queryType = ''After'' then ''__gte''
                          else []);
                 kw = model @ ''__'' @ field @ qtype
             in Episode_filter st kw (DateV val)))))"

text \<open>\<^verbatim>\<open>Extractor._episodes_for_fkorft_fields\<close>.\<close>

definition episodes_for_fkorft_fields ::
  "store \<Rightarrow> criterion \<Rightarrow> string \<Rightarrow> string \<Rightarrow> model \<Rightarrow> error + nat list" where
  "episodes_for_fkorft_fields st query field contains Mod =
     and_then (getitem query ''column'') (\<lambda>column.
       let model = lower (str_replace CHR '' '' CHR ''_'' column) in
       (case map_of (fkorft_attrs Mod) field of
          None \<Rightarrow> Inl AttributeError
        | Some content_type \<Rightarrow>
            and_then (getitem query ''query'') (\<lambda>q.
              and_then (case Synonym_get st content_type q of
                          Inr canonical \<Rightarrow> Inr canonical
                        | Inl DoesNotExist \<Rightarrow> Inr q
                        | Inl e \<Rightarrow> Inl e) (\<lambda>name.
                let kw_fk = str_remove CHR ''_'' model @ ''__'' @ field @ ''_fk__name'' @ contains;
                    kw_ft = str_remove CHR ''_'' model @ ''__'' @ field @ ''_ft'' @ contains
                in if episode_subrecord Mod then
                     and_then (Episode_filter st kw_fk (StrV name)) (\<lambda>qs_fk.
                       and_then (Episode_filter st kw_ft (StrV q)) (\<lambda>qs_ft.
                         Inr (py_set (qs_fk @ qs_ft))))
                   else if patient_subrecord Mod then
                     and_then (Patient_filter st kw_fk (StrV name)) (\<lambda>qs_fk.
                       and_then (Patient_filter st kw_ft (StrV q)) (\<lambda>qs_ft.
                         let pats = py_set (qs_fk @ qs_ft)
                         in Inr (concat (map (episode_set st) pats))))
                   else Inl UnboundLocalError))))"

text \<open>
  The loop of \<^verbatim>\<open>episodes_for_criteria\<close> over \<^verbatim>\<open>get_models()\<close>: the first model whose
  lower-cased name is \<open>model_name\<close> is taken, and a later one replaces it only if it
  is an Episode or a Patient subrecord.
\<close>

fun find_model :: "model option \<Rightarrow> string \<Rightarrow> model list \<Rightarrow> model option" where
  "find_model Mod model_name [] = Mod"
| "find_model Mod model_name (m # ms) =
     (if lower (m_name m) = model_name then
        (case Mod of
           None \<Rightarrow> find_model (Some m) model_name ms
         | Some _ \<Rightarrow>
             if episode_subrecord m \<or> patient_subrecord m
             then find_model (Some m) model_name ms
             else find_model Mod model_name ms)
      else find_model Mod model_name ms)"

text \<open>\<^verbatim>\<open>Extractor.episodes_for_criteria\<close>.\<close>

definition episodes_for_criteria :: "store \<Rightarrow> criterion \<Rightarrow> error + nat list" where
  "episodes_for_criteria st query =
     and_then (getitem query ''queryType'') (\<lambda>querytype.
       let contains = (if querytype = ''Contains'' then ''__icontains'' else ''__iexact'') in
       and_then (getitem query ''column'') (\<lambda>column.
         let model_name = str_remove CHR ''_'' (str_remove CHR '' '' column) in
         and_then (getitem query ''field'') (\<lambda>fld.
           let field = lower (str_replace CHR '' '' CHR ''_'' fld);
               Mod0 = find_model None model_name (get_models st);
               Mod1 = (if lower model_name = ''tags'' then Some Tagging else Mod0)
           in case Mod1 of
                None \<Rightarrow> Inl AttributeError
              | Some Mod \<Rightarrow>
                  let named_fields = filter (\<lambda>f. fst f = field) (meta_fields Mod) in
                  if length named_fields = 1 \<and> snd (hd named_fields) = BooleanField then
                    episodes_for_boolean_fields st query field contains
                  else if length named_fields = 1 \<and> snd (hd named_fields) = DateField then
                    episodes_for_date_fields st query field contains
                  else if map_of (fkorft_attrs Mod) field \<noteq> None then
                    episodes_for_fkorft_fields st query field contains Mod
                  else
                    and_then (getitem query ''query'') (\<lambda>q.
                      let kw = model_name @ ''__'' @ field @ contains in
                      if Mod = Tagging then Inr (ever_tagged st fld)
                      else if episode_subrecord Mod then Episode_filter st kw (StrV q)
                      else if patient_subrecord Mod then
                        and_then (Patient_filter st kw (StrV q)) (\<lambda>pats.
                          Inr (concat (map (episode_set st) pats)))
                      else Inl UnboundLocalError))))"

text \<open>
  \<^verbatim>\<open>Extractor.get_episodes\<close>. The list comprehension reads \<^verbatim>\<open>q['combine']\<close> and then
  resolves \<open>q\<close>, criterion by criterion, and stops at the first exception.
\<close>

fun all_matches :: "store \<Rightarrow> criterion list \<Rightarrow> error + (string \<times> nat list) list" where
  "all_matches st [] = Inr []"
| "all_matches st (q # qs) =
     and_then (getitem q ''combine'') (\<lambda>combine.
       and_then (episodes_for_criteria st q) (\<lambda>eps.
         and_then (all_matches st qs) (\<lambda>rest. Inr ((combine, eps) # rest))))"

datatype set_method = Intersection | Union | Difference

definition methods :: "string \<rightharpoonup> set_method" where
  "methods = [''and'' \<mapsto> Intersection, ''or'' \<mapsto> Union, ''not'' \<mapsto> Difference]"

text \<open>\<^verbatim>\<open>getattr(a, name)(b)\<close> for a set \<open>a\<close>: the receiver is \<open>a\<close>, the argument \<open>b\<close>.\<close>

fun set_call :: "set_method \<Rightarrow> nat list \<Rightarrow> nat list \<Rightarrow> nat list" where
  "set_call Intersection a b = filter (\<lambda>x. x \<in> set b) a"
| "set_call Union a b = remdups (a @ b)"
| "set_call Difference a b = filter (\<lambda>x. x \<notin> set b) a"

fun combine_rest :: "nat list \<Rightarrow> (string \<times> nat list) list \<Rightarrow> error + nat list" where
  "combine_rest working [] = Inr working"
| "combine_rest working ((combine, eps) # rest) =
     (case methods combine of
        None \<Rightarrow> Inl KeyError
      | Some meth \<Rightarrow> combine_rest (set_call meth (py_set eps) working) rest)"

definition get_episodes :: "store \<Rightarrow> criterion list \<Rightarrow> error + nat list" where
  "get_episodes st query =
     and_then (all_matches st query) (\<lambda>matches.
       case matches of
         [] \<Rightarrow> Inr []
       | (combine, eps) # rest \<Rightarrow> combine_rest (py_set eps) rest)"

section \<open>The CSV download\<close>

text \<open>
  What \<^verbatim>\<open>DownloadSearchView.post\<close> reads from its surroundings: the user of the
  request, \<^verbatim>\<open>settings.OPAL_BRAND_NAME\<close>, the two readings of the clock
  (\<^verbatim>\<open>datetime.datetime.now()\<close> as \<^verbatim>\<open>description\<close> formats it and its
  \<^verbatim>\<open>isoformat()\<close>), the writer \<^verbatim>\<open>opal.utils.json_to_csv\<close>, which is not under
  \<^verbatim>\<open>src/\<close> and is a parameter, and \<^verbatim>\<open>open(fname, 'rb').read()\<close>. The query is the
  decoded \<^verbatim>\<open>criteria\<close> of the request.
\<close>

record environment =
  username :: string
  brand_name :: string
  now_text :: string
  now_iso :: string
  json_to_csv :: "nat list \<Rightarrow> string \<Rightarrow> string \<Rightarrow> error + string"
  read_file :: "string \<Rightarrow> error + string"

record response =
  body :: string
  mimetype :: string
  content_disposition :: string

definition newline :: string where
  "newline = [CHR 0x0A]"

text \<open>\<^verbatim>\<open>"{combine} {column} {field} {queryType} {query}".format(**f)\<close>.\<close>

definition format_filter :: "criterion \<Rightarrow> error + string" where
  "format_filter f =
     and_then (getitem f ''combine'') (\<lambda>combine.
       and_then (getitem f ''column'') (\<lambda>column.
         and_then (getitem f ''field'') (\<lambda>field.
           and_then (getitem f ''queryType'') (\<lambda>queryType.
             and_then (getitem f ''query'') (\<lambda>query.
               Inr (combine @ '' '' @ column @ '' '' @ field @ '' '' @ queryType @ '' '' @ query))))))"

fun format_filters :: "criterion list \<Rightarrow> error + string list" where
  "format_filters [] = Inr []"
| "format_filters (f # fs) =
     and_then (format_filter f) (\<lambda>line.
       and_then (format_filters fs) (\<lambda>lines. Inr (line # lines)))"

text \<open>\<^verbatim>\<open>sep.join(lines)\<close>.\<close>

fun join :: "string \<Rightarrow> string list \<Rightarrow> string" where
  "join sep [] = []"
| "join sep [l] = l"
| "join sep (l # ls) = l @ sep @ join sep ls"

text \<open>\<^verbatim>\<open>Extractor.description\<close>.\<close>

definition description :: "environment \<Rightarrow> criterion list \<Rightarrow> error + string" where
  "description env query =
     and_then (format_filters query) (\<lambda>lines.
       Inr (username env @ '' ('' @ now_text env @ '')'' @ newline @
            ''Searching for:'' @ newline @ join newline lines @ newline))"

text \<open>
  \<^verbatim>\<open>DownloadSearchView.post\<close>. The arguments of \<^verbatim>\<open>json_to_csv\<close> are evaluated from
  the left, then the writer is called, then the file it names is read.
\<close>

definition post :: "environment \<Rightarrow> store \<Rightarrow> criterion list \<Rightarrow> error + response" where
  "post env st query =
     and_then (get_episodes st query) (\<lambda>eps.
       and_then (description env query) (\<lambda>text.
         and_then (json_to_csv env eps text (username env)) (\<lambda>fname.
           and_then (read_file env fname) (\<lambda>content.
             Inr \<lparr>body = content,
                  mimetype = ''application/force-download'',
                  content_disposition =
                    ''attachment; filename='' @ [CHR 0x22] @ brand_name env @ ''extract'' @
                    now_iso env @ ''.zip'' @ [CHR 0x22]\<rparr>))))"

section \<open>Well-formed names\<close>

text \<open>
  A name that the lookup separator cannot cut: it has no two adjacent underscores
  and does not end with an underscore.
\<close>

fun no_sep :: "string \<Rightarrow> bool" where
  "no_sep [] = True"
| "no_sep [c] = (c \<noteq> CHR ''_'')"
| "no_sep (c # d # cs) = (\<not> (c = CHR ''_'' \<and> d = CHR ''_'') \<and> no_sep (d # cs))"

text \<open>
  The candidates of the loop over \<^verbatim>\<open>get_models()\<close> and the test it applies to a
  later candidate.
\<close>

definition candidates :: "string \<Rightarrow> model list \<Rightarrow> model list" where
  "candidates model_name ms = filter (\<lambda>m. lower (m_name m) = model_name) ms"

definition is_subrecord :: "model \<Rightarrow> bool" where
  "is_subrecord m = (episode_subrecord m \<or> patient_subrecord m)"

section \<open>A small hospital\<close>

text \<open>
  Two patients: patient 10 owns the episodes 1 and 2, patient 20 owns episode 3.
  \<^verbatim>\<open>Diagnosis\<close> is an Episode subrecord with a hybrid field \<^verbatim>\<open>condition\<close>, a boolean
  and a date; \<^verbatim>\<open>Demographics\<close> and \<^verbatim>\<open>Allergies\<close> are Patient subrecords. An archive
  application registers a model of its own named \<^verbatim>\<open>Demographics\<close> that is no
  subrecord, and two unrelated applications each register a model named
  \<^verbatim>\<open>Audit\<close> that is no subrecord.
\<close>

definition Diagnosis :: model where
  "Diagnosis =
     \<lparr>m_app = ''hospital'', m_name = ''Diagnosis'', episode_subrecord = True,
      patient_subrecord = False,
      meta_fields = [(''id'', OtherField), (''episode'', OtherField),
                     (''condition_fk'', OtherField), (''condition_ft'', OtherField),
                     (''provisional'', BooleanField), (''date_of_diagnosis'', DateField)],
      fkorft_attrs = [(''condition'', ''Condition'')]\<rparr>"

definition Demographics :: model where
  "Demographics =
     \<lparr>m_app = ''hospital'', m_name = ''Demographics'', episode_subrecord = False,
      patient_subrecord = True,
      meta_fields = [(''id'', OtherField), (''patient'', OtherField), (''name'', OtherField),
                     (''dead'', BooleanField), (''date_of_birth'', DateField)],
      fkorft_attrs = []\<rparr>"

definition Allergies :: model where
  "Allergies =
     \<lparr>m_app = ''hospital'', m_name = ''Allergies'', episode_subrecord = False,
      patient_subrecord = True,
      meta_fields = [(''id'', OtherField), (''patient'', OtherField),
                     (''drug_fk'', OtherField), (''drug_ft'', OtherField),
                     (''details'', OtherField)],
      fkorft_attrs = [(''drug'', ''Drug'')]\<rparr>"

definition Demographics_archive :: model where
  "Demographics_archive =
     \<lparr>m_app = ''archive'', m_name = ''Demographics'', episode_subrecord = False,
      patient_subrecord = False,
      meta_fields = [(''id'', OtherField), (''name'', OtherField)],
      fkorft_attrs = []\<rparr>"

definition Audit_reports :: model where
  "Audit_reports =
     \<lparr>m_app = ''reports'', m_name = ''Audit'', episode_subrecord = False,
      patient_subrecord = False,
      meta_fields = [(''id'', OtherField), (''note'', OtherField)],
      fkorft_attrs = []\<rparr>"

definition Audit_legacy :: model where
  "Audit_legacy =
     \<lparr>m_app = ''legacy'', m_name = ''Audit'', episode_subrecord = False,
      patient_subrecord = False,
      meta_fields = [(''id'', OtherField), (''note'', OtherField)],
      fkorft_attrs = []\<rparr>"

definition hospital :: store where
  "hospital =
     \<lparr>get_models = [Tagging, Diagnosis, Demographics_archive, Demographics, Allergies,
                    Audit_reports, Audit_legacy],
      episodes = [(1, 10), (2, 10), (3, 20)],
      rows =
        [\<lparr>r_model = ''Diagnosis'', r_owner = 1,
          r_values = [([''condition_fk'', ''name''], StrV ''Hypertension''),
                      ([''provisional''], BoolV True),
                      ([''date_of_diagnosis''], DateV (Date 2020 6 1))]\<rparr>,
         \<lparr>r_model = ''Diagnosis'', r_owner = 2,
          r_values = [([''condition_ft''], StrV ''suspected HTN''),
                      ([''provisional''], BoolV False),
                      ([''date_of_diagnosis''], DateV (Date 2020 6 2))]\<rparr>,
         \<lparr>r_model = ''Diagnosis'', r_owner = 3,
          r_values = [([''condition_fk'', ''name''], StrV ''Asthma''),
                      ([''provisional''], BoolV True),
                      ([''date_of_diagnosis''], DateV (Date 2020 5 31))]\<rparr>,
         \<lparr>r_model = ''Demographics'', r_owner = 10,
          r_values = [([''name''], StrV ''Alice''), ([''dead''], BoolV False),
                      ([''date_of_birth''], DateV (Date 1980 2 29))]\<rparr>,
         \<lparr>r_model = ''Demographics'', r_owner = 20,
          r_values = [([''name''], StrV ''Bob''), ([''dead''], BoolV False),
                      ([''date_of_birth''], DateV (Date 1975 12 1))]\<rparr>,
         \<lparr>r_model = ''Allergies'', r_owner = 10,
          r_values = [([''drug_fk'', ''name''], StrV ''Penicillin''),
                      ([''details''], StrV ''rash'')]\<rparr>,
         \<lparr>r_model = ''Allergies'', r_owner = 10,
          r_values = [([''drug_ft''], StrV ''penicillin V''),
                      ([''details''], StrV ''rash'')]\<rparr>],
      synonyms = [(''Condition'', ''HTN'', ''Hypertension'')],
      taggings = [(1, ''micro'', True), (2, ''micro'', False),
                  (2, ''renal'', True), (3, ''renal'', True)]\<rparr>"

text \<open>A writer that always fails, and one that writes a file.\<close>

definition failing_env :: environment where
  "failing_env =
     \<lparr>username = ''alice'', brand_name = ''OPAL'', now_text = ''2020-06-01 10:00:00'',
      now_iso = ''2020-06-01T10:00:00'',
      json_to_csv = (\<lambda>eps text user. Inl (WriterError ''disk full'')),
      read_file = (\<lambda>fname. Inr ''PK'')\<rparr>"

section \<open>Basic facts\<close>

lemma and_then_Inr: "and_then (Inr v) f = f v"
  by (simp add: and_then_def)

lemma and_then_Inl: "and_then (Inl e) f = Inl e"
  by (simp add: and_then_def)

lemma and_then_eq_Inr:
  "and_then r f = Inr y \<longleftrightarrow> (\<exists>v. r = Inr v \<and> f v = Inr y)"
  by (cases r) (simp_all add: and_then_def)

lemma getitem_criterion:
  "getitem (criterion c col f qt v) ''combine'' = Inr c"
  "getitem (criterion c col f qt v) ''column'' = Inr col"
  "getitem (criterion c col f qt v) ''field'' = Inr f"
  "getitem (criterion c col f qt v) ''queryType'' = Inr qt"
  "getitem (criterion c col f qt v) ''query'' = Inr v"
  by (simp_all add: getitem_def criterion_def)

section \<open>The result combinator\<close>

lemma distinct_py_set: "distinct (py_set xs)"
  by (simp add: py_set_def)

lemma distinct_set_call: "distinct a \<Longrightarrow> distinct (set_call m a b)"
  by (cases m) simp_all

lemma distinct_combine_rest:
  "distinct working \<Longrightarrow> combine_rest working rest = Inr xs \<Longrightarrow> distinct xs"
proof (induction rest arbitrary: working)
  case Nil
  then show ?case by simp
next
  case (Cons p rest)
  obtain combine eps where p: "p = (combine, eps)" by (cases p)
  from Cons.prems(2) p obtain meth where
    m: "methods combine = Some meth" and
    r: "combine_rest (set_call meth (py_set eps) working) rest = Inr xs"
    by (auto split: option.splits)
  have "distinct (set_call meth (py_set eps) working)"
    by (rule distinct_set_call) (rule distinct_py_set)
  from Cons.IH [OF this r] show ?case .
qed

text \<open>
  C1. The claim: for a query of two or more criteria \<^verbatim>\<open>get_episodes\<close> folds from the
  left, seeded with the first criterion's set, and \<^verbatim>\<open>not\<close> takes the accumulated set
  minus the pair's set. The loop calls the set method on \<^verbatim>\<open>set(episodes)\<close> with
  \<^verbatim>\<open>working\<close> as the argument, so \<^verbatim>\<open>not\<close> yields the pair's set minus the
  accumulated one. In the hospital the tag \<^verbatim>\<open>micro\<close> was carried by the episodes 1
  and 2, the tag \<^verbatim>\<open>renal\<close> by 2 and 3; "micro, not renal" returns episode 3, where
  the accumulated set minus the pair's set is episode 1.
\<close>

theorem get_episodes_not_receiver:
  "episodes_for_criteria hospital (criterion ''and'' ''tags'' ''micro'' ''Equals'' []) = Inr [1, 2] \<and>
   episodes_for_criteria hospital (criterion ''not'' ''tags'' ''renal'' ''Equals'' []) = Inr [2, 3] \<and>
   get_episodes hospital
     [criterion ''and'' ''tags'' ''micro'' ''Equals'' [],
      criterion ''not'' ''tags'' ''renal'' ''Equals'' []] = Inr [3]"
  by code_simp

text \<open>
  C7. The empty query returns the empty result and raises nothing.
\<close>

theorem get_episodes_empty_query: "get_episodes st [] = Inr []"
  by (simp add: get_episodes_def and_then_Inr)

text \<open>
  C10. Whatever the resolvers return, a result of \<^verbatim>\<open>get_episodes\<close> holds each
  Episode at most once.
\<close>

theorem get_episodes_distinct:
  "get_episodes st query = Inr xs \<Longrightarrow> distinct xs"
proof -
  assume g: "get_episodes st query = Inr xs"
  then obtain matches where
    m: "(case matches of [] \<Rightarrow> Inr [] | (combine, eps) # rest \<Rightarrow> combine_rest (py_set eps) rest) = Inr xs"
    by (auto simp: get_episodes_def and_then_eq_Inr)
  show "distinct xs"
  proof (cases matches)
    case Nil
    with m show ?thesis by simp
  next
    case (Cons p rest)
    obtain combine eps where "p = (combine, eps)" by (cases p)
    with m Cons have "combine_rest (py_set eps) rest = Inr xs" by simp
    with distinct_py_set show ?thesis by (rule distinct_combine_rest)
  qed
qed

text \<open>
  Patient 10 has two allergy records with the same details, so the Patient is
  matched twice and the resolver lists each of the Patient's episodes twice; the
  combined result lists them once.
\<close>

theorem get_episodes_distinct_witness:
  "episodes_for_criteria hospital (criterion ''and'' ''allergies'' ''details'' ''Equals'' ''rash'')
     = Inr [1, 2, 1, 2] \<and>
   get_episodes hospital [criterion ''and'' ''allergies'' ''details'' ''Equals'' ''rash'']
     = Inr [1, 2] \<and>
   distinct [1, 2 :: nat]"
proof -
  have a: "episodes_for_criteria hospital (criterion ''and'' ''allergies'' ''details'' ''Equals'' ''rash'')
     = Inr [1, 2, 1, 2]"
    by code_simp
  have b: "get_episodes hospital [criterion ''and'' ''allergies'' ''details'' ''Equals'' ''rash'']
     = Inr [1, 2]"
    by code_simp
  from a b get_episodes_distinct [OF b] show ?thesis by (intro conjI)
qed

section \<open>The CSV download\<close>

text \<open>
  C9. When the writer fails in the CSV projection, \<^verbatim>\<open>post\<close> fails with the writer's
  error: no response, and so no file, is returned.
\<close>

theorem post_writer_failure:
  "get_episodes st query = Inr eps \<Longrightarrow> description env query = Inr text \<Longrightarrow>
   json_to_csv env eps text (username env) = Inl e \<Longrightarrow> post env st query = Inl e"
  by (simp add: post_def and_then_Inr and_then_Inl)

theorem post_writer_failure_witness:
  "get_episodes hospital [criterion ''and'' ''tags'' ''micro'' ''Equals'' ''x''] = Inr [1, 2] \<and>
   description failing_env [criterion ''and'' ''tags'' ''micro'' ''Equals'' ''x''] =
     Inr (''alice (2020-06-01 10:00:00)'' @ newline @ ''Searching for:'' @ newline @
          ''and tags micro Equals x'' @ newline) \<and>
   post failing_env hospital [criterion ''and'' ''tags'' ''micro'' ''Equals'' ''x''] =
     Inl (WriterError ''disk full'')"
proof -
  have a: "get_episodes hospital [criterion ''and'' ''tags'' ''micro'' ''Equals'' ''x''] = Inr [1, 2]"
    by code_simp
  have b: "description failing_env [criterion ''and'' ''tags'' ''micro'' ''Equals'' ''x''] =
     Inr (''alice (2020-06-01 10:00:00)'' @ newline @ ''Searching for:'' @ newline @
          ''and tags micro Equals x'' @ newline)"
    by code_simp
  have c: "json_to_csv failing_env [1, 2]
             (''alice (2020-06-01 10:00:00)'' @ newline @ ''Searching for:'' @ newline @
              ''and tags micro Equals x'' @ newline)
             (username failing_env) = Inl (WriterError ''disk full'')"
    by (simp add: failing_env_def)
  from a b post_writer_failure [OF a b c] show ?thesis by (intro conjI)
qed

section \<open>Lookup keys\<close>

lemma split_sep_no_sep: "no_sep s \<Longrightarrow> split_sep s = [s]"
  by (induction s rule: no_sep.induct) (auto split: list.splits)

lemma split_sep_prefix:
  "no_sep s \<Longrightarrow> split_sep (s @ CHR ''_'' # CHR ''_'' # rest) = s # split_sep rest"
proof (induction s rule: no_sep.induct)
  case 1
  then show ?case by simp
next
  case (2 c)
  then show ?case by simp
next
  case (3 c d cs)
  then show ?case by (auto split: list.splits)
qed

lemma no_sep_no_underscore: "CHR ''_'' \<notin> set s \<Longrightarrow> no_sep s"
  by (induction s rule: no_sep.induct) auto

lemma no_sep_str_remove: "no_sep (str_remove CHR ''_'' s)"
  by (rule no_sep_no_underscore) (simp add: str_remove_def)

lemma lookup_exact: "lookup_holds ''exact'' val = (\<lambda>x. x = val)"
  by (rule ext) (simp add: lookup_holds_def)

lemma lookup_lte:
  "lookup_holds ''lte'' (DateV d) = (\<lambda>x. case x of DateV t \<Rightarrow> date_le t d | _ \<Rightarrow> False)"
  by (rule ext) (simp add: lookup_holds_def split: fvalue.splits)

lemma lookup_gte:
  "lookup_holds ''gte'' (DateV d) = (\<lambda>x. case x of DateV t \<Rightarrow> date_le d t | _ \<Rightarrow> False)"
  by (rule ext) (simp add: lookup_holds_def split: fvalue.splits)

lemma orm_filter_plain_key:
  assumes "no_sep rel" "no_sep field" "field \<notin> set query_terms"
  shows "orm_filter st scope (rel @ ''__'' @ field) val =
         select_rows st scope rel [field] (\<lambda>x. x = val)"
proof -
  have parts: "split_sep (rel @ ''__'' @ field) = [rel, field]"
    using assms by (simp add: split_sep_prefix split_sep_no_sep)
  show ?thesis
    unfolding orm_filter_def parts using assms(3) by (simp add: lookup_exact)
qed

lemma orm_filter_lookup_key:
  assumes "no_sep rel" "no_sep field" "no_sep term" "term \<in> set query_terms"
  shows "orm_filter st scope (rel @ ''__'' @ field @ ''__'' @ term) val =
         select_rows st scope rel [field] (lookup_holds term val)"
proof -
  have parts: "split_sep (rel @ ''__'' @ field @ ''__'' @ term) = [rel, field, term]"
    using assms by (simp add: split_sep_prefix split_sep_no_sep)
  show ?thesis
    unfolding orm_filter_def parts using assms(4) by simp
qed

lemma select_rows_set:
  assumes "related st scope rel = Some m" "field \<in> fst ` set (meta_fields m)"
  shows "\<exists>xs. select_rows st scope rel [field] P = Inr xs \<and>
           set xs = {r_owner r | r. r \<in> set (rows st) \<and> r_model r = m_name m \<and>
                       (\<exists>x. map_of (r_values r) [field] = Some x \<and> P x)}"
  using assms by (auto simp: select_rows_def split: option.splits)

section \<open>Boolean fields\<close>

text \<open>
  C2, as the code has it. The claim: the value of a boolean criterion is a
  case-insensitive truthy token, so that \<^verbatim>\<open>true\<close>, \<^verbatim>\<open>TRUE\<close> and \<^verbatim>\<open>True\<close> all select
  the records whose field is true. The resolver compares the value with the literal
  \<^verbatim>\<open>'true'\<close>: only that text selects the records whose field is true, and every
  other text, \<^verbatim>\<open>TRUE\<close> and \<^verbatim>\<open>True\<close> among them, selects the records whose field is
  false. The matched Episodes are the owners of the rows of the column's relation
  whose field has that boolean.
\<close>

theorem boolean_value_exact_true:
  assumes "no_sep field" "field \<notin> set query_terms"
    and "related st episode_subrecord
           (str_remove CHR ''_'' (lower (str_replace CHR '' '' CHR ''_'' column))) = Some m"
    and "field \<in> fst ` set (meta_fields m)"
  shows "\<exists>xs. episodes_for_boolean_fields st (criterion c column f qt v) field contains = Inr xs \<and>
           set xs = {r_owner r | r. r \<in> set (rows st) \<and> r_model r = m_name m \<and>
                       map_of (r_values r) [field] = Some (BoolV (v = ''true''))}"
proof -
  let ?rel = "str_remove CHR ''_'' (lower (str_replace CHR '' '' CHR ''_'' column))"
  have "episodes_for_boolean_fields st (criterion c column f qt v) field contains =
        orm_filter st episode_subrecord (?rel @ ''__'' @ field) (BoolV (v = ''true''))"
    by (simp add: episodes_for_boolean_fields_def getitem_criterion and_then_Inr
        Episode_filter_def Let_def)
  also have "\<dots> = select_rows st episode_subrecord ?rel [field] (\<lambda>x. x = BoolV (v = ''true''))"
    using assms(1,2) by (intro orm_filter_plain_key no_sep_str_remove)
  finally have eq: "episodes_for_boolean_fields st (criterion c column f qt v) field contains =
        select_rows st episode_subrecord ?rel [field] (\<lambda>x. x = BoolV (v = ''true''))" .
  from select_rows_set [OF assms(3,4), of "\<lambda>x. x = BoolV (v = ''true'')"]
  show ?thesis unfolding eq by simp
qed

text \<open>The hypotheses hold for the field \<^verbatim>\<open>provisional\<close> of \<^verbatim>\<open>Diagnosis\<close>.\<close>

theorem boolean_value_exact_true_witness:
  "no_sep ''provisional'' \<and> ''provisional'' \<notin> set query_terms \<and>
   related hospital episode_subrecord
     (str_remove CHR ''_'' (lower (str_replace CHR '' '' CHR ''_'' ''diagnosis''))) = Some Diagnosis \<and>
   ''provisional'' \<in> fst ` set (meta_fields Diagnosis) \<and>
   (\<exists>xs. episodes_for_boolean_fields hospital
            (criterion ''and'' ''diagnosis'' ''provisional'' ''Equals'' ''True'')
            ''provisional'' ''__iexact'' = Inr xs \<and>
      set xs = {r_owner r | r. r \<in> set (rows hospital) \<and> r_model r = m_name Diagnosis \<and>
                  map_of (r_values r) [''provisional''] = Some (BoolV (''True'' = ''true''))})"
proof -
  have a: "no_sep ''provisional''" by code_simp
  have b: "''provisional'' \<notin> set query_terms" by code_simp
  have c: "related hospital episode_subrecord
     (str_remove CHR ''_'' (lower (str_replace CHR '' '' CHR ''_'' ''diagnosis''))) = Some Diagnosis"
    by code_simp
  have d: "''provisional'' \<in> fst ` set (meta_fields Diagnosis)" by code_simp
  from a b c d boolean_value_exact_true [OF a b c d] show ?thesis by (intro conjI)
qed

text \<open>
  C2, as the claim states it, fails: of the three diagnoses those of the episodes 1
  and 3 are provisional, and \<^verbatim>\<open>TRUE\<close> and \<^verbatim>\<open>True\<close> select episode 2.
\<close>

theorem boolean_upper_case_counterexample:
  "episodes_for_boolean_fields hospital
     (criterion ''and'' ''diagnosis'' ''provisional'' ''Equals'' ''true'')
     ''provisional'' ''__iexact'' = Inr [1, 3] \<and>
   episodes_for_boolean_fields hospital
     (criterion ''and'' ''diagnosis'' ''provisional'' ''Equals'' ''TRUE'')
     ''provisional'' ''__iexact'' = Inr [2] \<and>
   episodes_for_boolean_fields hospital
     (criterion ''and'' ''diagnosis'' ''provisional'' ''Equals'' ''True'')
     ''provisional'' ''__iexact'' = Inr [2]"
  by code_simp

section \<open>Date fields\<close>

lemma date_case_ex:
  "(\<exists>x. v = Some x \<and> (case x of DateV t \<Rightarrow> P t | _ \<Rightarrow> False)) \<longleftrightarrow>
   (\<exists>t. v = Some (DateV t) \<and> P t)"
proof (cases v)
  case None
  then show ?thesis by simp
next
  case (Some x)
  then show ?thesis by (cases x) simp_all
qed

text \<open>
  C6. With a value that \<^verbatim>\<open>strptime\<close> reads as the date \<open>d\<close>, \<^verbatim>\<open>Before\<close> selects the
  owners of the rows whose date is at most \<open>d\<close> and \<^verbatim>\<open>After\<close> those whose date is at
  least \<open>d\<close>; a row dated \<open>d\<close> itself satisfies both bounds.
\<close>

theorem date_bounds_inclusive:
  assumes "strptime v = Inr d"
    and "no_sep (lower (str_remove CHR '' '' column))" "no_sep field"
    and "related st episode_subrecord (lower (str_remove CHR '' '' column)) = Some m"
    and "field \<in> fst ` set (meta_fields m)"
  shows "(\<exists>xs. episodes_for_date_fields st (criterion c column f ''Before'' v) field contains = Inr xs \<and>
            set xs = {r_owner r | r. r \<in> set (rows st) \<and> r_model r = m_name m \<and>
                        (\<exists>t. map_of (r_values r) [field] = Some (DateV t) \<and> date_le t d)}) \<and>
         (\<exists>xs. episodes_for_date_fields st (criterion c column f ''After'' v) field contains = Inr xs \<and>
            set xs = {r_owner r | r. r \<in> set (rows st) \<and> r_model r = m_name m \<and>
                        (\<exists>t. map_of (r_values r) [field] = Some (DateV t) \<and> date_le d t)}) \<and>
         date_le d d"
proof -
  let ?rel = "lower (str_remove CHR '' '' column)"
  have lte: "''lte'' \<in> set query_terms" and gte: "''gte'' \<in> set query_terms"
    by (simp_all add: query_terms_def)
  have ns: "no_sep ''lte''" "no_sep ''gte''" by simp_all
  have "episodes_for_date_fields st (criterion c column f ''Before'' v) field contains =
        orm_filter st episode_subrecord (?rel @ ''__'' @ field @ ''__'' @ ''lte'') (DateV d)"
    using assms(1)
    by (simp add: episodes_for_date_fields_def getitem_criterion and_then_Inr
        Episode_filter_def Let_def)
  also have "\<dots> = select_rows st episode_subrecord ?rel [field] (lookup_holds ''lte'' (DateV d))"
    using assms(2,3) ns(1) lte by (rule orm_filter_lookup_key)
  finally have before: "episodes_for_date_fields st (criterion c column f ''Before'' v) field contains =
        select_rows st episode_subrecord ?rel [field]
          (\<lambda>x. case x of DateV t \<Rightarrow> date_le t d | _ \<Rightarrow> False)"
    by (simp only: lookup_lte)
  have "episodes_for_date_fields st (criterion c column f ''After'' v) field contains =
        orm_filter st episode_subrecord (?rel @ ''__'' @ field @ ''__'' @ ''gte'') (DateV d)"
    using assms(1)
    by (simp add: episodes_for_date_fields_def getitem_criterion and_then_Inr
        Episode_filter_def Let_def)
  also have "\<dots> = select_rows st episode_subrecord ?rel [field] (lookup_holds ''gte'' (DateV d))"
    using assms(2,3) ns(2) gte by (rule orm_filter_lookup_key)
  finally have after: "episodes_for_date_fields st (criterion c column f ''After'' v) field contains =
        select_rows st episode_subrecord ?rel [field]
          (\<lambda>x. case x of DateV t \<Rightarrow> date_le d t | _ \<Rightarrow> False)"
    by (simp only: lookup_gte)
  have sets:
    "\<And>P. {r_owner r | r. r \<in> set (rows st) \<and> r_model r = m_name m \<and>
            (\<exists>x. map_of (r_values r) [field] = Some x \<and> (case x of DateV t \<Rightarrow> P t | _ \<Rightarrow> False))} =
         {r_owner r | r. r \<in> set (rows st) \<and> r_model r = m_name m \<and>
            (\<exists>t. map_of (r_values r) [field] = Some (DateV t) \<and> P t)}"
    by (simp only: date_case_ex)
  from select_rows_set [OF assms(4,5), of "\<lambda>x. case x of DateV t \<Rightarrow> date_le t d | _ \<Rightarrow> False"]
  have 1: "\<exists>xs. episodes_for_date_fields st (criterion c column f ''Before'' v) field contains = Inr xs \<and>
            set xs = {r_owner r | r. r \<in> set (rows st) \<and> r_model r = m_name m \<and>
                        (\<exists>t. map_of (r_values r) [field] = Some (DateV t) \<and> date_le t d)}"
    unfolding before sets .
  from select_rows_set [OF assms(4,5), of "\<lambda>x. case x of DateV t \<Rightarrow> date_le d t | _ \<Rightarrow> False"]
  have 2: "\<exists>xs. episodes_for_date_fields st (criterion c column f ''After'' v) field contains = Inr xs \<and>
            set xs = {r_owner r | r. r \<in> set (rows st) \<and> r_model r = m_name m \<and>
                        (\<exists>t. map_of (r_values r) [field] = Some (DateV t) \<and> date_le d t)}"
    unfolding after sets .
  have 3: "date_le d d" by (simp add: date_le_def)
  from 1 2 3 show ?thesis by (intro conjI)
qed

text \<open>
  \<^verbatim>\<open>Before 01/06/2020\<close> over the diagnoses: episode 1 is dated 1 June 2020 and is in
  the result, with episode 3 of 31 May.
\<close>

theorem date_bounds_inclusive_witness:
  "strptime ''01/06/2020'' = Inr (Date 2020 6 1) \<and>
   no_sep (lower (str_remove CHR '' '' ''diagnosis'')) \<and> no_sep ''date_of_diagnosis'' \<and>
   related hospital episode_subrecord (lower (str_remove CHR '' '' ''diagnosis'')) = Some Diagnosis \<and>
   ''date_of_diagnosis'' \<in> fst ` set (meta_fields Diagnosis) \<and>
   episodes_for_date_fields hospital
     (criterion ''and'' ''diagnosis'' ''Date of diagnosis'' ''Before'' ''01/06/2020'')
     ''date_of_diagnosis'' ''__iexact'' = Inr [1, 3] \<and>
   episodes_for_date_fields hospital
     (criterion ''and'' ''diagnosis'' ''Date of diagnosis'' ''After'' ''01/06/2020'')
     ''date_of_diagnosis'' ''__iexact'' = Inr [1, 2] \<and>
   date_le (Date 2020 6 1) (Date 2020 6 1)"
proof -
  have a: "strptime ''01/06/2020'' = Inr (Date 2020 6 1)" by code_simp
  have b: "no_sep (lower (str_remove CHR '' '' ''diagnosis''))" by code_simp
  have c: "no_sep ''date_of_diagnosis''" by code_simp
  have d: "related hospital episode_subrecord (lower (str_remove CHR '' '' ''diagnosis'')) =
           Some Diagnosis"
    by code_simp
  have e: "''date_of_diagnosis'' \<in> fst ` set (meta_fields Diagnosis)" by code_simp
  have f: "episodes_for_date_fields hospital
     (criterion ''and'' ''diagnosis'' ''Date of diagnosis'' ''Before'' ''01/06/2020'')
     ''date_of_diagnosis'' ''__iexact'' = Inr [1, 3]"
    by code_simp
  have g: "episodes_for_date_fields hospital
     (criterion ''and'' ''diagnosis'' ''Date of diagnosis'' ''After'' ''01/06/2020'')
     ''date_of_diagnosis'' ''__iexact'' = Inr [1, 2]"
    by code_simp
  have h: "date_le (Date 2020 6 1) (Date 2020 6 1)"
    by (rule conjunct2 [OF conjunct2 [OF date_bounds_inclusive [OF a b c d e]]])
  from a b c d e f g h show ?thesis by (intro conjI)
qed

section \<open>The virtual type Tags\<close>

lemma set_ever_tagged:
  "set (ever_tagged st name) = {e. \<exists>active. (e, name, active) \<in> set (taggings st)}"
  by (force simp: ever_tagged_def)

lemma Tagging_not_typed:
  "\<not> (length (filter (\<lambda>f. fst f = field) (meta_fields Tagging)) = Suc 0 \<and>
      snd (hd (filter (\<lambda>f. fst f = field) (meta_fields Tagging))) = BooleanField)"
  "\<not> (length (filter (\<lambda>f. fst f = field) (meta_fields Tagging)) = Suc 0 \<and>
      snd (hd (filter (\<lambda>f. fst f = field) (meta_fields Tagging))) = DateField)"
  "map_of (fkorft_attrs Tagging) field = None"
  by (simp_all add: Tagging_def)

text \<open>
  C8. A criterion whose column is \<^verbatim>\<open>Tags\<close> (in any case, with or without spaces and
  underscores) resolves to exactly the Episodes that have a tagging with the named
  tag, whether that tagging is still active or not.
\<close>

theorem tags_ever_tagged:
  assumes "lower (str_remove CHR ''_'' (str_remove CHR '' '' column)) = ''tags''"
  shows "\<exists>xs. episodes_for_criteria st (criterion c column fld qt v) = Inr xs \<and>
           set xs = {e. \<exists>active. (e, fld, active) \<in> set (taggings st)}"
proof -
  have "episodes_for_criteria st (criterion c column fld qt v) = Inr (ever_tagged st fld)"
    using assms
    by (simp add: episodes_for_criteria_def getitem_criterion and_then_Inr Let_def
        Tagging_not_typed)
  then show ?thesis by (simp add: set_ever_tagged)
qed

text \<open>
  The tag \<^verbatim>\<open>micro\<close>: the tagging of episode 1 is active, that of episode 2 is
  historical, and both are in the result.
\<close>

theorem tags_ever_tagged_witness:
  "lower (str_remove CHR ''_'' (str_remove CHR '' '' ''Tags'')) = ''tags'' \<and>
   episodes_for_criteria hospital (criterion ''and'' ''Tags'' ''micro'' ''Equals'' []) = Inr [1, 2] \<and>
   (\<exists>xs. episodes_for_criteria hospital (criterion ''and'' ''Tags'' ''micro'' ''Equals'' []) = Inr xs \<and>
      set xs = {e. \<exists>active. (e, ''micro'', active) \<in> set (taggings hospital)})"
proof -
  have a: "lower (str_remove CHR ''_'' (str_remove CHR '' '' ''Tags'')) = ''tags''" by code_simp
  have b: "episodes_for_criteria hospital (criterion ''and'' ''Tags'' ''micro'' ''Equals'' []) = Inr [1, 2]"
    by code_simp
  from a b tags_ever_tagged [OF a] show ?thesis by (intro conjI)
qed

section \<open>The choice among models of one name\<close>

lemma find_model_Some:
  "find_model (Some a) name ms = Some (last (a # filter is_subrecord (candidates name ms)))"
  by (induction ms arbitrary: a) (simp_all add: candidates_def is_subrecord_def)

lemma find_model_None:
  "find_model None name ms =
     (case candidates name ms of [] \<Rightarrow> None | c # cs \<Rightarrow> Some (last (c # filter is_subrecord cs)))"
proof (induction ms)
  case Nil
  then show ?case by (simp add: candidates_def)
next
  case (Cons m ms)
  show ?case
  proof (cases "lower (m_name m) = name")
    case True
    then show ?thesis
      using find_model_Some [of m name ms] by (simp add: candidates_def)
  next
    case False
    with Cons show ?thesis by (simp add: candidates_def)
  qed
qed

text \<open>
  C5, as the code has it. The claim: a name with several candidates of which none
  is a subrecord type makes the resolution fail with \<^verbatim>\<open>AmbiguousTypeError\<close>, and a
  single subrecord candidate is preferred. The code has no such error: when no
  candidate is a subrecord type the loop keeps the first candidate of the registry,
  and when exactly one candidate is a subrecord type the loop ends with that one.
\<close>

theorem find_model_choice:
  assumes "candidates model_name ms = c # cs"
  shows "(filter is_subrecord (c # cs) = [] \<longrightarrow> find_model None model_name ms = Some c) \<and>
         (\<forall>s. filter is_subrecord (c # cs) = [s] \<longrightarrow> find_model None model_name ms = Some s)"
proof -
  have f: "find_model None model_name ms = Some (last (c # filter is_subrecord cs))"
    using assms by (simp add: find_model_None)
  show ?thesis
  proof (cases "is_subrecord c")
    case True
    then show ?thesis using f by auto
  next
    case False
    then show ?thesis using f by auto
  qed
qed

text \<open>
  The two models named \<^verbatim>\<open>Audit\<close> are no subrecords and the first is kept; of the
  two models named \<^verbatim>\<open>Demographics\<close> the Patient subrecord is chosen over the
  archive's model, which the registry lists first.
\<close>

theorem find_model_choice_witness:
  "candidates ''audit'' (get_models hospital) = [Audit_reports, Audit_legacy] \<and>
   filter is_subrecord [Audit_reports, Audit_legacy] = [] \<and>
   find_model None ''audit'' (get_models hospital) = Some Audit_reports \<and>
   candidates ''demographics'' (get_models hospital) = [Demographics_archive, Demographics] \<and>
   filter is_subrecord [Demographics_archive, Demographics] = [Demographics] \<and>
   find_model None ''demographics'' (get_models hospital) = Some Demographics"
proof -
  have a: "candidates ''audit'' (get_models hospital) = [Audit_reports, Audit_legacy]"
    by code_simp
  have b: "filter is_subrecord [Audit_reports, Audit_legacy] = []" by code_simp
  have c: "candidates ''demographics'' (get_models hospital) = [Demographics_archive, Demographics]"
    by code_simp
  have d: "filter is_subrecord [Demographics_archive, Demographics] = [Demographics]"
    by code_simp
  from find_model_choice [OF a] b
  have e: "find_model None ''audit'' (get_models hospital) = Some Audit_reports" by blast
  from find_model_choice [OF c] d
  have f: "find_model None ''demographics'' (get_models hospital) = Some Demographics" by blast
  from a b e c d f show ?thesis by (intro conjI)
qed

text \<open>
  C5, as the claim states it, fails: for the name \<^verbatim>\<open>audit\<close> the loop picks the first
  of the two candidates, and the resolution then ends in the \<^verbatim>\<open>UnboundLocalError\<close>
  of a model that is neither an Episode nor a Patient subrecord, as it does for a
  single such model; nothing reports the collision.
\<close>

theorem ambiguous_name_counterexample:
  "candidates ''audit'' (get_models hospital) = [Audit_reports, Audit_legacy] \<and>
   is_subrecord Audit_reports = False \<and> is_subrecord Audit_legacy = False \<and>
   find_model None ''audit'' (get_models hospital) = Some Audit_reports \<and>
   episodes_for_criteria hospital (criterion ''and'' ''audit'' ''note'' ''Equals'' ''x'') =
     Inl UnboundLocalError"
  by code_simp

section \<open>Hybrid fields\<close>

text \<open>
  C3, as the code has it. The claim: a criterion on a hybrid field whose value is a
  known synonym resolves to the same result as the criterion with the canonical
  name. The resolver compares the name of the reference with the canonical name,
  but the free text with the value as it was typed. The two criteria have the same
  result when the free-text comparison, in the scope of the model, selects the same
  records for the synonym as for the canonical name, and the canonical name is not
  itself the alias of an entry with another name.
\<close>

theorem fkorft_synonym:
  assumes "map_of (fkorft_attrs Mod) field = Some ct"
    and "Synonym_get st ct v = Inr canonical"
    and "Synonym_get st ct canonical = Inl DoesNotExist \<or> Synonym_get st ct canonical = Inr canonical"
    and "episode_subrecord Mod \<Longrightarrow>
           Episode_filter st
             (str_remove CHR ''_'' (lower (str_replace CHR '' '' CHR ''_'' column)) @ ''__'' @
              field @ ''_ft'' @ contains) (StrV v) =
           Episode_filter st
             (str_remove CHR ''_'' (lower (str_replace CHR '' '' CHR ''_'' column)) @ ''__'' @
              field @ ''_ft'' @ contains) (StrV canonical)"
    and "\<not> episode_subrecord Mod \<Longrightarrow> patient_subrecord Mod \<Longrightarrow>
           Patient_filter st
             (str_remove CHR ''_'' (lower (str_replace CHR '' '' CHR ''_'' column)) @ ''__'' @
              field @ ''_ft'' @ contains) (StrV v) =
           Patient_filter st
             (str_remove CHR ''_'' (lower (str_replace CHR '' '' CHR ''_'' column)) @ ''__'' @
              field @ ''_ft'' @ contains) (StrV canonical)"
  shows "episodes_for_fkorft_fields st (criterion c column f qt v) field contains Mod =
         episodes_for_fkorft_fields st (criterion c column f qt canonical) field contains Mod"
proof -
  have name_v: "(case Synonym_get st ct v of Inr n \<Rightarrow> Inr n | Inl DoesNotExist \<Rightarrow> Inr v
                 | Inl e \<Rightarrow> Inl e) = (Inr canonical :: error + string)"
    using assms(2) by simp
  have name_c: "(case Synonym_get st ct canonical of Inr n \<Rightarrow> Inr n
                 | Inl DoesNotExist \<Rightarrow> Inr canonical | Inl e \<Rightarrow> Inl e) =
                (Inr canonical :: error + string)"
    using assms(3) by auto
  show ?thesis
  proof (cases "episode_subrecord Mod")
    case True
    with assms(4) name_v name_c assms(1) show ?thesis
      by (simp add: episodes_for_fkorft_fields_def getitem_criterion and_then_Inr Let_def)
  next
    case False
    note ne = this
    show ?thesis
    proof (cases "patient_subrecord Mod")
      case True
      with ne assms(5) name_v name_c assms(1) show ?thesis
        by (simp add: episodes_for_fkorft_fields_def getitem_criterion and_then_Inr Let_def)
    next
      case False
      with ne name_v name_c assms(1) show ?thesis
        by (simp add: episodes_for_fkorft_fields_def getitem_criterion and_then_Inr Let_def)
    qed
  qed
qed

text \<open>
  \<^verbatim>\<open>HTN\<close> is a synonym of \<^verbatim>\<open>Hypertension\<close>. With \<^verbatim>\<open>Equals\<close> no free text is equal
  to either, and both criteria resolve to episode 1.
\<close>

theorem fkorft_synonym_witness:
  "map_of (fkorft_attrs Diagnosis) ''condition'' = Some ''Condition'' \<and>
   Synonym_get hospital ''Condition'' ''HTN'' = Inr ''Hypertension'' \<and>
   Synonym_get hospital ''Condition'' ''Hypertension'' = Inl DoesNotExist \<and>
   Episode_filter hospital
     (str_remove CHR ''_'' (lower (str_replace CHR '' '' CHR ''_'' ''diagnosis'')) @ ''__'' @
      ''condition'' @ ''_ft'' @ ''__iexact'') (StrV ''HTN'') =
   Episode_filter hospital
     (str_remove CHR ''_'' (lower (str_replace CHR '' '' CHR ''_'' ''diagnosis'')) @ ''__'' @
      ''condition'' @ ''_ft'' @ ''__iexact'') (StrV ''Hypertension'') \<and>
   episodes_for_fkorft_fields hospital
     (criterion ''and'' ''diagnosis'' ''condition'' ''Equals'' ''HTN'')
     ''condition'' ''__iexact'' Diagnosis = Inr [1] \<and>
   episodes_for_fkorft_fields hospital
     (criterion ''and'' ''diagnosis'' ''condition'' ''Equals'' ''HTN'')
     ''condition'' ''__iexact'' Diagnosis =
   episodes_for_fkorft_fields hospital
     (criterion ''and'' ''diagnosis'' ''condition'' ''Equals'' ''Hypertension'')
     ''condition'' ''__iexact'' Diagnosis"
proof -
  have a: "map_of (fkorft_attrs Diagnosis) ''condition'' = Some ''Condition''" by code_simp
  have b: "Synonym_get hospital ''Condition'' ''HTN'' = Inr ''Hypertension''" by code_simp
  have c: "Synonym_get hospital ''Condition'' ''Hypertension'' = Inl DoesNotExist" by code_simp
  have d: "Episode_filter hospital
     (str_remove CHR ''_'' (lower (str_replace CHR '' '' CHR ''_'' ''diagnosis'')) @ ''__'' @
      ''condition'' @ ''_ft'' @ ''__iexact'') (StrV ''HTN'') =
   Episode_filter hospital
     (str_remove CHR ''_'' (lower (str_replace CHR '' '' CHR ''_'' ''diagnosis'')) @ ''__'' @
      ''condition'' @ ''_ft'' @ ''__iexact'') (StrV ''Hypertension'')"
    by code_simp
  have e: "Patient_filter hospital
     (str_remove CHR ''_'' (lower (str_replace CHR '' '' CHR ''_'' ''diagnosis'')) @ ''__'' @
      ''condition'' @ ''_ft'' @ ''__iexact'') (StrV ''HTN'') =
   Patient_filter hospital
     (str_remove CHR ''_'' (lower (str_replace CHR '' '' CHR ''_'' ''diagnosis'')) @ ''__'' @
      ''condition'' @ ''_ft'' @ ''__iexact'') (StrV ''Hypertension'')"
    by code_simp
  have f: "episodes_for_fkorft_fields hospital
     (criterion ''and'' ''diagnosis'' ''condition'' ''Equals'' ''HTN'')
     ''condition'' ''__iexact'' Diagnosis = Inr [1]"
    by code_simp
  have g: "episodes_for_fkorft_fields hospital
     (criterion ''and'' ''diagnosis'' ''condition'' ''Equals'' ''HTN'')
     ''condition'' ''__iexact'' Diagnosis =
   episodes_for_fkorft_fields hospital
     (criterion ''and'' ''diagnosis'' ''condition'' ''Equals'' ''Hypertension'')
     ''condition'' ''__iexact'' Diagnosis"
    by (rule fkorft_synonym [OF a b disjI1 [OF c] d e])
  from a b c d f g show ?thesis by (intro conjI)
qed

text \<open>
  C3, as the claim states it, fails: with \<^verbatim>\<open>Contains\<close> the synonym \<^verbatim>\<open>HTN\<close> also
  matches the free text "suspected HTN" of episode 2, which the canonical name does
  not contain.
\<close>

theorem fkorft_synonym_counterexample:
  "Synonym_get hospital ''Condition'' ''HTN'' = Inr ''Hypertension'' \<and>
   episodes_for_fkorft_fields hospital
     (criterion ''and'' ''diagnosis'' ''condition'' ''Contains'' ''HTN'')
     ''condition'' ''__icontains'' Diagnosis = Inr [1, 2] \<and>
   episodes_for_fkorft_fields hospital
     (criterion ''and'' ''diagnosis'' ''condition'' ''Contains'' ''Hypertension'')
     ''condition'' ''__icontains'' Diagnosis = Inr [1]"
  by code_simp

section \<open>Patient subrecords\<close>

text \<open>
  C4. The claim: a criterion on a Patient-scoped type, of any field kind, first
  matches Patients and then lists all their Episodes. The plain and the hybrid
  resolvers do so; the boolean and the date resolver filter Episodes by the
  column's relation whatever the scope of the type. Patient 10 owns the episodes 1
  and 2 and her demographics say \<^verbatim>\<open>name = Alice\<close>, \<^verbatim>\<open>dead = False\<close>, born in 1980: the
  plain criterion on the name resolves to both episodes, the boolean and the date
  criterion end in the \<^verbatim>\<open>FieldError\<close> of a relation that Episode does not have.
\<close>

theorem patient_scope_boolean_not_expanded:
  "episodes_for_criteria hospital (criterion ''and'' ''demographics'' ''name'' ''Equals'' ''alice'')
     = Inr [1, 2] \<and>
   episodes_for_criteria hospital (criterion ''and'' ''demographics'' ''dead'' ''Equals'' ''false'')
     = Inl FieldError \<and>
   episodes_for_criteria hospital
     (criterion ''and'' ''demographics'' ''date_of_birth'' ''Before'' ''01/01/2000'')
     = Inl FieldError"
  by code_simp

end
